theory Spec2Isabelle
  imports Main "HOL-Library.Word" "HOL-Library.AList"
begin

unbundle bit_operations_syntax

section \<open>Machine integers and errors\<close>

type_synonym u8 = "8 word"
type_synonym u16 = "16 word"
type_synonym u32 = "32 word"

text \<open>
  Go errors are values. \<open>Wrap\<close> is \<^verbatim>\<open>fmt.Errorf("...: %w", err)\<close>; \<open>ErrShortRead\<close> is the
  error of the bytes iterator when fewer bytes are left than asked for;
  \<open>ErrCRC32 table computed\<close> is the error built at data_psi.go:161; \<open>Panic\<close> stands for a
  Go run-time panic (a slice bound out of range, a nil pointer); \<open>ErrNoParser\<close> is returned
  by the stand-ins for the table parsers that the sources do not contain.
\<close>

datatype error =
    ErrShortRead
  | ErrCRC32 u32 u32
  | ErrNoRoomInBuffer
  | ErrPointerField
  | ErrNoParser
  | ErrNoMorePackets
  | Wrap string error
  | Panic

section \<open>CRC32 (data_psi.go, computeCRC32)\<close>

text \<open>
  The inner loop \<^verbatim>\<open>for i := 0; i < 8; i++\<close>: the argument counts the iterations left.
  \<^verbatim>\<open>o << 1\<close> on a uint32 and \<^verbatim>\<open>b <<= 1\<close> on a byte drop the bit shifted out.
\<close>

fun crc32Bits :: "nat \<Rightarrow> u32 \<Rightarrow> u8 \<Rightarrow> u32" where
  "crc32Bits 0 reg b = reg"
| "crc32Bits (Suc n) reg b =
     crc32Bits n
       (if (reg \<ge> 0x80000000) \<noteq> (b \<ge> 0x80)
        then push_bit 1 reg XOR 0x04C11DB7
        else push_bit 1 reg)
       (push_bit 1 b)"

text \<open>The outer loop \<^verbatim>\<open>for _, b := range bs\<close>.\<close>

fun crc32Bytes :: "u32 \<Rightarrow> u8 list \<Rightarrow> u32" where
  "crc32Bytes reg [] = reg"
| "crc32Bytes reg (b # bs) = crc32Bytes (crc32Bits 8 reg b) bs"

definition computeCRC32 :: "u8 list \<Rightarrow> error + u32" where
  "computeCRC32 bs = Inr (crc32Bytes 0xffffffff bs)"

text \<open>
  The reference algorithm in the words of the specification: the message is the sequence
  of the bits of every byte, most significant bit first; the register starts at
  \<open>0xFFFFFFFF\<close>; for each message bit the register is shifted left by one and the
  polynomial \<open>0x04C11DB7\<close> is XOR-ed in exactly when the top bit of the register (before
  the shift) differs from the message bit. No bit is reflected and the register is
  returned as it is.
\<close>

definition msbFirst :: "u8 \<Rightarrow> bool list" where
  "msbFirst b = map (\<lambda>k. bit b (7 - k)) [0..<8]"

definition crcStep :: "u32 \<Rightarrow> bool \<Rightarrow> u32" where
  "crcStep reg m =
     (if bit reg 31 \<noteq> m then push_bit 1 reg XOR 0x04C11DB7 else push_bit 1 reg)"

definition mpeg2CRC32 :: "u8 list \<Rightarrow> u32" where
  "mpeg2CRC32 bs = foldl crcStep 0xFFFFFFFF (concat (map msbFirst bs))"

section \<open>Table types (data_psi.go)\<close>

definition PSITableTypeBAT :: string where "PSITableTypeBAT = ''BAT''"
definition PSITableTypeDIT :: string where "PSITableTypeDIT = ''DIT''"
definition PSITableTypeEIT :: string where "PSITableTypeEIT = ''EIT''"
definition PSITableTypeNIT :: string where "PSITableTypeNIT = ''NIT''"
definition PSITableTypeNull :: string where "PSITableTypeNull = ''Null''"
definition PSITableTypePAT :: string where "PSITableTypePAT = ''PAT''"
definition PSITableTypePMT :: string where "PSITableTypePMT = ''PMT''"
definition PSITableTypeRST :: string where "PSITableTypeRST = ''RST''"
definition PSITableTypeSDT :: string where "PSITableTypeSDT = ''SDT''"
definition PSITableTypeSIT :: string where "PSITableTypeSIT = ''SIT''"
definition PSITableTypeST :: string where "PSITableTypeST = ''ST''"
definition PSITableTypeTDT :: string where "PSITableTypeTDT = ''TDT''"
definition PSITableTypeTOT :: string where "PSITableTypeTOT = ''TOT''"
definition PSITableTypeUnknown :: string where "PSITableTypeUnknown = ''Unknown''"

lemmas tableTypeNames =
  PSITableTypeBAT_def PSITableTypeDIT_def PSITableTypeEIT_def PSITableTypeNIT_def
  PSITableTypeNull_def PSITableTypePAT_def PSITableTypePMT_def PSITableTypeRST_def
  PSITableTypeSDT_def PSITableTypeSIT_def PSITableTypeST_def PSITableTypeTDT_def
  PSITableTypeTOT_def PSITableTypeUnknown_def

text \<open>\<^verbatim>\<open>psiTableType(tableID int)\<close>: the \<^verbatim>\<open>switch\<close> takes the first case that holds.\<close>

definition psiTableType :: "int \<Rightarrow> string" where
  "psiTableType tableID =
     (if tableID = 0x4a then PSITableTypeBAT
      else if tableID \<ge> 0x4e \<and> tableID \<le> 0x6f then PSITableTypeEIT
      else if tableID = 0x7e then PSITableTypeDIT
      else if tableID = 0x40 \<or> tableID = 0x41 then PSITableTypeNIT
      else if tableID = 0xff then PSITableTypeNull
      else if tableID = 0 then PSITableTypePAT
      else if tableID = 2 then PSITableTypePMT
      else if tableID = 0x71 then PSITableTypeRST
      else if tableID = 0x42 \<or> tableID = 0x46 then PSITableTypeSDT
      else if tableID = 0x7f then PSITableTypeSIT
      else if tableID = 0x72 then PSITableTypeST
      else if tableID = 0x70 then PSITableTypeTDT
      else if tableID = 0x73 then PSITableTypeTOT
      else PSITableTypeUnknown)"

definition shouldStopPSIParsing :: "string \<Rightarrow> bool" where
  "shouldStopPSIParsing tableType \<longleftrightarrow>
     tableType = PSITableTypeNull \<or> tableType = PSITableTypeUnknown"

definition hasCRC32 :: "string \<Rightarrow> bool" where
  "hasCRC32 tableType \<longleftrightarrow>
     tableType = PSITableTypePAT \<or>
     tableType = PSITableTypePMT \<or>
     tableType = PSITableTypeEIT \<or>
     tableType = PSITableTypeNIT \<or>
     tableType = PSITableTypeTOT \<or>
     tableType = PSITableTypeSDT"

definition hasPSISyntaxHeader :: "string \<Rightarrow> bool" where
  "hasPSISyntaxHeader tableType \<longleftrightarrow>
     tableType = PSITableTypeEIT \<or>
     tableType = PSITableTypeNIT \<or>
     tableType = PSITableTypePAT \<or>
     tableType = PSITableTypePMT \<or>
     tableType = PSITableTypeSDT"

section \<open>The bytes iterator\<close>

text \<open>
  \<^verbatim>\<open>astikit.BytesIterator\<close> is a library type: a byte slice and a cursor. \<^verbatim>\<open>NextByte\<close> and
  \<^verbatim>\<open>NextBytes(n)\<close> return an error when fewer bytes are left than asked for and move the
  cursor otherwise; \<^verbatim>\<open>Seek\<close> sets the cursor, \<^verbatim>\<open>Skip\<close> adds to it, and neither checks
  anything. Offsets are Go \<^verbatim>\<open>int\<close>s of 64 bits, whose sums wrap around; an index or a slice
  bound out of range panics.
\<close>

text \<open>
  A sum of two Go \<^verbatim>\<open>int\<close>s is taken modulo \<open>2^64\<close> into the range from \<open>-2^63\<close>.
  \<open>offsetPlus i n\<close> is \<^verbatim>\<open>i.offset+n\<close>. It wraps in the states that a Go program can be
  in: both numbers are 64-bit \<^verbatim>\<open>int\<close>s and the slice holds fewer than \<open>2^62\<close> bytes (the
  Go runtime allocates far less). A list or an offset beyond that is no state of the
  program; the sum is then the plain sum.
\<close>

definition wrap64 :: "int \<Rightarrow> int" where
  "wrap64 x = (x + 2 ^ 63) mod 2 ^ 64 - 2 ^ 63"

definition goInt :: "int \<Rightarrow> bool" where
  "goInt x \<longleftrightarrow> - (2 ^ 63) \<le> x \<and> x < 2 ^ 63"

record iterator =
  it_bs :: "u8 list"
  it_offset :: int

definition offsetPlus :: "iterator \<Rightarrow> int \<Rightarrow> int" where
  "offsetPlus i n =
     (if int (length (it_bs i)) < 2 ^ 62 \<and> goInt (it_offset i) \<and> goInt n
      then wrap64 (it_offset i + n)
      else it_offset i + n)"

definition NewBytesIterator :: "u8 list \<Rightarrow> iterator" where
  "NewBytesIterator b = \<lparr>it_bs = b, it_offset = 0\<rparr>"

definition Offset :: "iterator \<Rightarrow> int" where
  "Offset i = it_offset i"

definition HasBytesLeft :: "iterator \<Rightarrow> bool" where
  "HasBytesLeft i \<longleftrightarrow> it_offset i < int (length (it_bs i))"

definition Seek :: "int \<Rightarrow> iterator \<Rightarrow> iterator" where
  "Seek n i = i\<lparr>it_offset := n\<rparr>"

definition Skip :: "int \<Rightarrow> iterator \<Rightarrow> iterator" where
  "Skip n i = i\<lparr>it_offset := offsetPlus i n\<rparr>"

text \<open>
  \<^verbatim>\<open>NextByte\<close> tests \<^verbatim>\<open>len(i.bs) < i.offset+1\<close> and then reads \<^verbatim>\<open>i.bs[i.offset]\<close>. With
  the cursor inside the slice the sum does not wrap, the test fails and the byte is
  read. With the cursor outside, the test is made on the wrapped sum: the error when it
  holds, the panic of the index expression when it does not (a negative cursor, or the
  cursor at the largest \<^verbatim>\<open>int\<close>).
\<close>

definition NextByte :: "iterator \<Rightarrow> error + (u8 \<times> iterator)" where
  "NextByte i =
     (if 0 \<le> it_offset i \<and> it_offset i < int (length (it_bs i))
      then Inr (it_bs i ! nat (it_offset i), i\<lparr>it_offset := it_offset i + 1\<rparr>)
      else if int (length (it_bs i)) < offsetPlus i 1 then Inl ErrShortRead
      else Inl Panic)"

text \<open>
  \<^verbatim>\<open>NextBytes(n)\<close> tests \<^verbatim>\<open>len(i.bs) < i.offset+n\<close> and then copies
  \<^verbatim>\<open>i.bs[i.offset:i.offset+n]\<close> into a new slice of length \<open>n\<close>. With \<open>0 \<le> offset\<close>,
  \<open>0 \<le> n\<close> and \<open>offset + n\<close> within the slice nothing wraps and the bytes are returned;
  otherwise the test is made on the wrapped sum, and where it does not hold the
  allocation or the slice expression panics.
\<close>

definition NextBytes :: "int \<Rightarrow> iterator \<Rightarrow> error + (u8 list \<times> iterator)" where
  "NextBytes n i =
     (if 0 \<le> it_offset i \<and> 0 \<le> n \<and> it_offset i + n \<le> int (length (it_bs i))
      then Inr (take (nat n) (drop (nat (it_offset i)) (it_bs i)),
                i\<lparr>it_offset := it_offset i + n\<rparr>)
      else if int (length (it_bs i)) < offsetPlus i n then Inl ErrShortRead
      else Inl Panic)"

section \<open>PSI data (data_psi.go)\<close>

record PSISectionHeader =
  PrivateBit :: bool
  SectionLength :: u16
  SectionSyntaxIndicator :: bool
  TableID :: int
  TableType :: string

record PSISectionSyntaxHeader =
  CurrentNextIndicator :: bool
  LastSectionNumber :: u8
  SectionNumber :: u8
  TableIDExtension :: u16
  VersionNumber :: u8

text \<open>
  The table bodies are declared in files of their own. Of the PAT the demuxer reads the
  programs, each a program number and the PID of its program map; the other bodies
  (\<^verbatim>\<open>EITData\<close>, \<^verbatim>\<open>NITData\<close>, \<^verbatim>\<open>PMTData\<close>, \<^verbatim>\<open>SDTData\<close>, \<^verbatim>\<open>TOTData\<close>) are only passed along
  and are values of the type parameter \<open>'b\<close>.
\<close>

record PATProgram =
  ProgramMapID :: u16
  ProgramNumber :: u16

record PATData =
  Programs :: "PATProgram list"
  TransportStreamID :: u16

record 'b PSISectionSyntaxData =
  EIT :: "'b option"
  NIT :: "'b option"
  PAT :: "PATData option"
  PMT :: "'b option"
  SDT :: "'b option"
  TOT :: "'b option"

text \<open>The fields \<^verbatim>\<open>Data\<close> and \<^verbatim>\<open>Header\<close> of \<^verbatim>\<open>PSISectionSyntax\<close>.\<close>

record 'b PSISectionSyntax =
  SyntaxData :: "'b PSISectionSyntaxData option"
  SyntaxHeader :: "PSISectionSyntaxHeader option"

record 'b PSISection =
  CRC32 :: u32
  Header :: "PSISectionHeader option"
  Syntax :: "'b PSISectionSyntax option"

record 'b PSIData =
  PointerField :: int
  Sections :: "'b PSISection list"

text \<open>
  The parsers of the table bodies (\<^verbatim>\<open>parseEITSection\<close> and the others) are not part of
  data_psi.go. They read through the iterator and can only move its cursor, so each is a
  function that returns the body and the new offset, or an error.
\<close>

record 'b tableParsers =
  parseEITSection :: "iterator \<Rightarrow> int \<Rightarrow> u16 \<Rightarrow> error + ('b \<times> int)"
  parseNITSection :: "iterator \<Rightarrow> u16 \<Rightarrow> error + ('b \<times> int)"
  parsePATSection :: "iterator \<Rightarrow> int \<Rightarrow> u16 \<Rightarrow> error + (PATData \<times> int)"
  parsePMTSection :: "iterator \<Rightarrow> int \<Rightarrow> u16 \<Rightarrow> error + ('b \<times> int)"
  parseSDTSection :: "iterator \<Rightarrow> int \<Rightarrow> u16 \<Rightarrow> error + ('b \<times> int)"
  parseTOTSection :: "iterator \<Rightarrow> error + ('b \<times> int)"

definition emptyHeader :: PSISectionHeader where
  "emptyHeader = \<lparr>PrivateBit = False, SectionLength = 0, SectionSyntaxIndicator = False,
     TableID = 0, TableType = []\<rparr>"

definition emptySyntaxData :: "'b PSISectionSyntaxData" where
  "emptySyntaxData = \<lparr>EIT = None, NIT = None, PAT = None, PMT = None, SDT = None, TOT = None\<rparr>"

text \<open>\<^verbatim>\<open>parseCRC32\<close>: four bytes, big-endian.\<close>

definition be32 :: "u8 list \<Rightarrow> u32" where
  "be32 b = push_bit 24 (ucast (b ! 0)) OR push_bit 16 (ucast (b ! 1))
              OR push_bit 8 (ucast (b ! 2)) OR ucast (b ! 3)"

definition parseCRC32 :: "iterator \<Rightarrow> error + (u32 \<times> iterator)" where
  "parseCRC32 i =
     (case NextBytes 4 i of
        Inl e \<Rightarrow> Inl (Wrap ''astits: fetching next bytes failed'' e)
      | Inr (b, i1) \<Rightarrow> Inr (be32 b, i1))"

text \<open>
  \<^verbatim>\<open>parsePSISectionHeader\<close> returns the header and the four offsets \<^verbatim>\<open>offsetStart\<close>,
  \<^verbatim>\<open>offsetSectionsStart\<close>, \<^verbatim>\<open>offsetSectionsEnd\<close>, \<^verbatim>\<open>offsetEnd\<close>. On the early return for
  a table type that stops the parsing the last three keep their zero value.
\<close>

definition parsePSISectionHeader ::
  "iterator \<Rightarrow> error + ((PSISectionHeader \<times> int \<times> int \<times> int \<times> int) \<times> iterator)" where
  "parsePSISectionHeader i =
     (let offsetStart = Offset i in
      case NextByte i of
        Inl e \<Rightarrow> Inl (Wrap ''astits: fetching next byte failed'' e)
      | Inr (b, i1) \<Rightarrow>
          let h = emptyHeader\<lparr>TableID := uint b, TableType := psiTableType (uint b)\<rparr> in
          if shouldStopPSIParsing (TableType h) then Inr ((h, offsetStart, 0, 0, 0), i1)
          else
            case NextBytes 2 i1 of
              Inl e \<Rightarrow> Inl (Wrap ''astits: fetching next bytes failed'' e)
            | Inr (b2, i2) \<Rightarrow>
                let h = h\<lparr>SectionSyntaxIndicator := (b2 ! 0) AND 0x80 > 0,
                          PrivateBit := (b2 ! 0) AND 0x40 > 0,
                          SectionLength := push_bit 8 (ucast ((b2 ! 0) AND 0xf)) OR ucast (b2 ! 1)\<rparr>;
                    offsetSectionsStart = Offset i2;
                    offsetEnd = offsetSectionsStart + uint (SectionLength h);
                    offsetSectionsEnd = (if hasCRC32 (TableType h) then offsetEnd - 4 else offsetEnd)
                in Inr ((h, offsetStart, offsetSectionsStart, offsetSectionsEnd, offsetEnd), i2))"

definition parsePSISectionSyntaxHeader ::
  "iterator \<Rightarrow> error + (PSISectionSyntaxHeader \<times> iterator)" where
  "parsePSISectionSyntaxHeader i =
     (case NextBytes 2 i of
        Inl e \<Rightarrow> Inl (Wrap ''astits: fetching next bytes failed'' e)
      | Inr (b2, i1) \<Rightarrow>
     (case NextByte i1 of
        Inl e \<Rightarrow> Inl (Wrap ''astits: fetching next byte failed'' e)
      | Inr (b, i2) \<Rightarrow>
     (case NextByte i2 of
        Inl e \<Rightarrow> Inl (Wrap ''astits: fetching next byte failed'' e)
      | Inr (sn, i3) \<Rightarrow>
     (case NextByte i3 of
        Inl e \<Rightarrow> Inl (Wrap ''astits: fetching next byte failed'' e)
      | Inr (lsn, i4) \<Rightarrow>
          Inr (\<lparr>CurrentNextIndicator = b AND 0x1 > 0,
                LastSectionNumber = lsn,
                SectionNumber = sn,
                TableIDExtension = push_bit 8 (ucast (b2 ! 0)) OR ucast (b2 ! 1),
                VersionNumber = drop_bit 1 (b AND 0x3f)\<rparr>, i4)))))"

text \<open>
  \<^verbatim>\<open>parsePSISectionSyntaxData\<close>: the \<^verbatim>\<open>switch\<close> on the table type. The tables with a parser
  all have a syntax header except the TOT, whose parser does not read it; \<^verbatim>\<open>sh\<close> is
  dereferenced for the others, which panics on \<^verbatim>\<open>nil\<close>.
\<close>

definition extOf :: "PSISectionSyntaxHeader option \<Rightarrow> error + u16" where
  "extOf sh = (case sh of None \<Rightarrow> Inl Panic | Some x \<Rightarrow> Inr (TableIDExtension x))"

definition parsePSISectionSyntaxData ::
  "'b tableParsers \<Rightarrow> iterator \<Rightarrow> PSISectionHeader \<Rightarrow> PSISectionSyntaxHeader option \<Rightarrow> int
     \<Rightarrow> error + ('b PSISectionSyntaxData \<times> iterator)" where
  "parsePSISectionSyntaxData P i h sh offsetSectionsEnd =
     (if TableType h = PSITableTypeEIT then
        (case extOf sh of Inl e \<Rightarrow> Inl e | Inr ext \<Rightarrow>
         case parseEITSection P i offsetSectionsEnd ext of
           Inl e \<Rightarrow> Inl (Wrap ''astits: parsing EIT section failed'' e)
         | Inr (t, n) \<Rightarrow> Inr (emptySyntaxData\<lparr>EIT := Some t\<rparr>, Seek n i))
      else if TableType h = PSITableTypeNIT then
        (case extOf sh of Inl e \<Rightarrow> Inl e | Inr ext \<Rightarrow>
         case parseNITSection P i ext of
           Inl e \<Rightarrow> Inl (Wrap ''astits: parsing NIT section failed'' e)
         | Inr (t, n) \<Rightarrow> Inr (emptySyntaxData\<lparr>NIT := Some t\<rparr>, Seek n i))
      else if TableType h = PSITableTypePAT then
        (case extOf sh of Inl e \<Rightarrow> Inl e | Inr ext \<Rightarrow>
         case parsePATSection P i offsetSectionsEnd ext of
           Inl e \<Rightarrow> Inl (Wrap ''astits: parsing PAT section failed'' e)
         | Inr (t, n) \<Rightarrow> Inr (emptySyntaxData\<lparr>PAT := Some t\<rparr>, Seek n i))
      else if TableType h = PSITableTypePMT then
        (case extOf sh of Inl e \<Rightarrow> Inl e | Inr ext \<Rightarrow>
         case parsePMTSection P i offsetSectionsEnd ext of
           Inl e \<Rightarrow> Inl (Wrap ''astits: parsing PMT section failed'' e)
         | Inr (t, n) \<Rightarrow> Inr (emptySyntaxData\<lparr>PMT := Some t\<rparr>, Seek n i))
      else if TableType h = PSITableTypeSDT then
        (case extOf sh of Inl e \<Rightarrow> Inl e | Inr ext \<Rightarrow>
         case parseSDTSection P i offsetSectionsEnd ext of
           Inl e \<Rightarrow> Inl (Wrap ''astits: parsing PMT section failed'' e)
         | Inr (t, n) \<Rightarrow> Inr (emptySyntaxData\<lparr>SDT := Some t\<rparr>, Seek n i))
      else if TableType h = PSITableTypeTOT then
        (case parseTOTSection P i of
           Inl e \<Rightarrow> Inl (Wrap ''astits: parsing TOT section failed'' e)
         | Inr (t, n) \<Rightarrow> Inr (emptySyntaxData\<lparr>TOT := Some t\<rparr>, Seek n i))
      else Inr (emptySyntaxData, i))"

definition parsePSISectionSyntax ::
  "'b tableParsers \<Rightarrow> iterator \<Rightarrow> PSISectionHeader \<Rightarrow> int
     \<Rightarrow> error + ('b PSISectionSyntax \<times> iterator)" where
  "parsePSISectionSyntax P i h offsetSectionsEnd =
     (case (if hasPSISyntaxHeader (TableType h)
            then (case parsePSISectionSyntaxHeader i of
                    Inl e \<Rightarrow> Inl (Wrap ''astits: parsing PSI section syntax header failed'' e)
                  | Inr (sh, i1) \<Rightarrow> Inr (Some sh, i1))
            else Inr (None, i)) of
        Inl e \<Rightarrow> Inl e
      | Inr (sh, i1) \<Rightarrow>
          (case parsePSISectionSyntaxData P i1 h sh offsetSectionsEnd of
             Inl e \<Rightarrow> Inl (Wrap ''astits: parsing PSI section syntax data failed'' e)
           | Inr (d, i2) \<Rightarrow> Inr (\<lparr>SyntaxData = Some d, SyntaxHeader = sh\<rparr>, i2)))"

text \<open>
  The CRC32 block of \<^verbatim>\<open>parsePSISection\<close> (data_psi.go:134-164): seek to the end of the
  table body, read the stored CRC32, seek back to the start of the section, fetch the
  bytes up to the stored CRC32, compute, compare.
\<close>

definition checkCRC32 :: "iterator \<Rightarrow> int \<Rightarrow> int \<Rightarrow> error + (u32 \<times> iterator)" where
  "checkCRC32 i offsetStart offsetSectionsEnd =
     (case parseCRC32 (Seek offsetSectionsEnd i) of
        Inl e \<Rightarrow> Inl (Wrap ''astits: parsing CRC32 failed'' e)
      | Inr (c, i1) \<Rightarrow>
     (case NextBytes (offsetSectionsEnd - offsetStart) (Seek offsetStart i1) of
        Inl e \<Rightarrow> Inl (Wrap ''astits: fetching next bytes failed'' e)
      | Inr (crc32Data, i2) \<Rightarrow>
     (case computeCRC32 crc32Data of
        Inl e \<Rightarrow> Inl (Wrap ''astits: computing CRC32 failed'' e)
      | Inr crc32 \<Rightarrow>
          if crc32 \<noteq> c then Inl (ErrCRC32 c crc32) else Inr (c, i2))))"

text \<open>\<^verbatim>\<open>parsePSISection\<close> returns the section, the \<^verbatim>\<open>stop\<close> flag and the iterator.\<close>

definition parsePSISection ::
  "'b tableParsers \<Rightarrow> iterator \<Rightarrow> error + ('b PSISection \<times> bool \<times> iterator)" where
  "parsePSISection P i =
     (case parsePSISectionHeader i of
        Inl e \<Rightarrow> Inl (Wrap ''astits: parsing PSI section header failed'' e)
      | Inr ((h, offsetStart, offsetSectionsStart, offsetSectionsEnd, offsetEnd), i1) \<Rightarrow>
          let s = \<lparr>CRC32 = 0, Header = Some h, Syntax = None\<rparr> in
          if shouldStopPSIParsing (TableType h) then Inr (s, True, i1)
          else if SectionLength h > 0 then
            (case parsePSISectionSyntax P i1 h offsetSectionsEnd of
               Inl e \<Rightarrow> Inl (Wrap ''astits: parsing PSI section syntax failed'' e)
             | Inr (sx, i2) \<Rightarrow>
                 if hasCRC32 (TableType h) then
                   (case checkCRC32 i2 offsetStart offsetSectionsEnd of
                      Inl e \<Rightarrow> Inl e
                    | Inr (c, i3) \<Rightarrow>
                        Inr (s\<lparr>Syntax := Some sx, CRC32 := c\<rparr>, False, Seek offsetEnd i3))
                 else Inr (s\<lparr>Syntax := Some sx\<rparr>, False, Seek offsetEnd i2))
          else Inr (s, False, Seek offsetEnd i1))"

text \<open>
  The loop of \<^verbatim>\<open>parsePSIData\<close>: \<^verbatim>\<open>for i.HasBytesLeft() && !stop\<close>. An error of a section
  ends the function with the sections appended so far; a section that parses is appended,
  also the one that sets \<^verbatim>\<open>stop\<close>. The result is the list of sections and either the
  error or the iterator at the end of the loop.
\<close>

function parsePSISections ::
  "'b tableParsers \<Rightarrow> iterator \<Rightarrow> bool \<Rightarrow> 'b PSISection list
     \<Rightarrow> 'b PSISection list \<times> (error + iterator)" where
  "parsePSISections P i stop acc =
     (if HasBytesLeft i \<and> \<not> stop then
        (case parsePSISection P i of
           Inl e \<Rightarrow> (acc, Inl (Wrap ''astits: parsing PSI table failed'' e))
         | Inr (s, stop', i') \<Rightarrow> parsePSISections P i' stop' (acc @ [s]))
      else (acc, Inr i))"
  by pat_completeness auto

text \<open>
  \<^verbatim>\<open>parsePSIData\<close> returns the data and the error, as the Go function does: the data
  holds the sections appended before an error. Where there is no error the second
  component is the iterator as the call leaves it; where the cursor is after an error is
  not part of the model.
\<close>

definition parsePSIData ::
  "'b tableParsers \<Rightarrow> iterator \<Rightarrow> 'b PSIData \<times> (error + iterator)" where
  "parsePSIData P i =
     (case NextByte i of
        Inl e \<Rightarrow> (\<lparr>PointerField = 0, Sections = []\<rparr>,
                  Inl (Wrap ''astits: fetching next byte failed'' e))
      | Inr (b, i1) \<Rightarrow>
          (case parsePSISections P (Skip (uint b) i1) False [] of
             (ss, r) \<Rightarrow> (\<lparr>PointerField = uint b, Sections = ss\<rparr>, r)))"

text \<open>
  A run of the loop over \<open>k\<close> sections: each is parsed with bytes left at the cursor,
  without error and without setting \<^verbatim>\<open>stop\<close>. The result is the sections in the order
  parsed and the iterator after the last of them.
\<close>

fun sectionsRun ::
  "'b tableParsers \<Rightarrow> nat \<Rightarrow> iterator \<Rightarrow> ('b PSISection list \<times> iterator) option" where
  "sectionsRun P 0 i = Some ([], i)"
| "sectionsRun P (Suc k) i =
     (if HasBytesLeft i then
        (case parsePSISection P i of
           Inl e \<Rightarrow> None
         | Inr (s, stop, i') \<Rightarrow>
             if stop then None
             else (case sectionsRun P k i' of
                     None \<Rightarrow> None
                   | Some (ss, j) \<Rightarrow> Some (s # ss, j)))
      else None)"

subsection \<open>The PAT parser\<close>

text \<open>
  Modelled from the spec: \<^verbatim>\<open>parsePATSection\<close>, whose file is not among the sources. The
  PAT body is a sequence of program entries of 4 bytes each, a 16-bit program number,
  3 reserved bits and a 13-bit PID; the parser loops over the entries up to
  \<^verbatim>\<open>offsetSectionsEnd\<close> and takes the transport stream identifier from the table
  identifier extension of the syntax header.
\<close>

function parsePATPrograms ::
  "iterator \<Rightarrow> int \<Rightarrow> PATProgram list \<Rightarrow> error + (PATProgram list \<times> iterator)" where
  "parsePATPrograms i offsetSectionsEnd acc =
     (if Offset i < offsetSectionsEnd then
        (case NextBytes 4 i of
           Inl e \<Rightarrow> Inl (Wrap ''astits: fetching next bytes failed'' e)
         | Inr (b, i1) \<Rightarrow>
             parsePATPrograms i1 offsetSectionsEnd
               (acc @ [\<lparr>ProgramMapID = push_bit 8 (ucast ((b ! 2) AND 0x1f)) OR ucast (b ! 3),
                         ProgramNumber = push_bit 8 (ucast (b ! 0)) OR ucast (b ! 1)\<rparr>]))
      else Inr (acc, i))"
  by pat_completeness auto
termination
  by (relation "measure (\<lambda>(i, e, acc). nat (e - it_offset i))")
     (auto simp: Offset_def NextBytes_def split: if_splits)

declare parsePATPrograms.simps [simp del]

definition parsePATSectionSpec :: "iterator \<Rightarrow> int \<Rightarrow> u16 \<Rightarrow> error + (PATData \<times> int)" where
  "parsePATSectionSpec i offsetSectionsEnd tableIDExtension =
     (case parsePATPrograms i offsetSectionsEnd [] of
        Inl e \<Rightarrow> Inl e
      | Inr (ps, i1) \<Rightarrow> Inr (\<lparr>Programs = ps, TransportStreamID = tableIDExtension\<rparr>, Offset i1))"

text \<open>
  The table parsers used where a concrete run is evaluated: the PAT parser above; the
  parsers of the other tables, which the sources do not contain, fail, and the type of
  their bodies is \<open>unit\<close>.
\<close>

definition patParsers :: "unit tableParsers" where
  "patParsers =
     \<lparr>parseEITSection = (\<lambda>i e x. Inl ErrNoParser),
      parseNITSection = (\<lambda>i x. Inl ErrNoParser),
      parsePATSection = parsePATSectionSpec,
      parsePMTSection = (\<lambda>i e x. Inl ErrNoParser),
      parseSDTSection = (\<lambda>i e x. Inl ErrNoParser),
      parseTOTSection = (\<lambda>i. Inl ErrNoParser)\<rparr>"

section \<open>The demuxer (demuxer.go)\<close>

text \<open>
  \<^verbatim>\<open>Data\<close> is declared outside the sources; its fields are those that \<^verbatim>\<open>toData\<close> and the
  demuxer use. A packet is a value of the type parameter \<open>'p\<close>, a PES body of \<open>'b\<close>.
\<close>

record ('b, 'p) Data =
  DataEIT :: "'b option"
  DataFirstPacket :: "'p option"
  DataNIT :: "'b option"
  DataPAT :: "PATData option"
  DataPES :: "'b option"
  DataPID :: u16
  DataPMT :: "'b option"
  DataSDT :: "'b option"
  DataTOT :: "'b option"

text \<open>
  \<^verbatim>\<open>toData\<close> (data_psi.go) makes one data unit of every section whose table type is EIT,
  NIT, PAT, PMT, SDT or TOT. It reads \<^verbatim>\<open>s.Header.TableType\<close> and \<^verbatim>\<open>s.Syntax.Data\<close>
  through pointers, which panics on \<^verbatim>\<open>nil\<close>.
\<close>

definition emptyData :: "'p option \<Rightarrow> u16 \<Rightarrow> ('b, 'p) Data" where
  "emptyData firstPacket pid =
     \<lparr>DataEIT = None, DataFirstPacket = firstPacket, DataNIT = None, DataPAT = None,
      DataPES = None, DataPID = pid, DataPMT = None, DataSDT = None, DataTOT = None\<rparr>"

definition syntaxDataOf :: "'b PSISection \<Rightarrow> error + 'b PSISectionSyntaxData" where
  "syntaxDataOf s =
     (case Syntax s of
        None \<Rightarrow> Inl Panic
      | Some sx \<Rightarrow> (case SyntaxData sx of None \<Rightarrow> Inl Panic | Some sd \<Rightarrow> Inr sd))"

fun toDataLoop ::
  "'b PSISection list \<Rightarrow> 'p option \<Rightarrow> u16 \<Rightarrow> ('b, 'p) Data list \<Rightarrow> error + ('b, 'p) Data list" where
  "toDataLoop [] firstPacket pid ds = Inr ds"
| "toDataLoop (s # ss) firstPacket pid ds =
     (case Header s of
        None \<Rightarrow> Inl Panic
      | Some h \<Rightarrow>
          if TableType h = PSITableTypeEIT then
            (case syntaxDataOf s of Inl e \<Rightarrow> Inl e | Inr sd \<Rightarrow>
               toDataLoop ss firstPacket pid (ds @ [(emptyData firstPacket pid)\<lparr>DataEIT := EIT sd\<rparr>]))
          else if TableType h = PSITableTypeNIT then
            (case syntaxDataOf s of Inl e \<Rightarrow> Inl e | Inr sd \<Rightarrow>
               toDataLoop ss firstPacket pid (ds @ [(emptyData firstPacket pid)\<lparr>DataNIT := NIT sd\<rparr>]))
          else if TableType h = PSITableTypePAT then
            (case syntaxDataOf s of Inl e \<Rightarrow> Inl e | Inr sd \<Rightarrow>
               toDataLoop ss firstPacket pid (ds @ [(emptyData firstPacket pid)\<lparr>DataPAT := PAT sd\<rparr>]))
          else if TableType h = PSITableTypePMT then
            (case syntaxDataOf s of Inl e \<Rightarrow> Inl e | Inr sd \<Rightarrow>
               toDataLoop ss firstPacket pid (ds @ [(emptyData firstPacket pid)\<lparr>DataPMT := PMT sd\<rparr>]))
          else if TableType h = PSITableTypeSDT then
            (case syntaxDataOf s of Inl e \<Rightarrow> Inl e | Inr sd \<Rightarrow>
               toDataLoop ss firstPacket pid (ds @ [(emptyData firstPacket pid)\<lparr>DataSDT := SDT sd\<rparr>]))
          else if TableType h = PSITableTypeTOT then
            (case syntaxDataOf s of Inl e \<Rightarrow> Inl e | Inr sd \<Rightarrow>
               toDataLoop ss firstPacket pid (ds @ [(emptyData firstPacket pid)\<lparr>DataTOT := TOT sd\<rparr>]))
          else toDataLoop ss firstPacket pid ds)"

definition toData :: "'b PSIData \<Rightarrow> 'p option \<Rightarrow> u16 \<Rightarrow> error + ('b, 'p) Data list" where
  "toData d firstPacket pid = toDataLoop (Sections d) firstPacket pid []"

text \<open>
  Modelled from the spec: \<^verbatim>\<open>ProgramMap\<close>, declared outside the sources. It is the side table
  from the PID of a program map to the program number; \<^verbatim>\<open>Set\<close> stores one entry.
\<close>

type_synonym ProgramMap = "u16 \<rightharpoonup> u16"

definition NewProgramMap :: ProgramMap where
  "NewProgramMap = Map.empty"

definition Set_pm :: "u16 \<Rightarrow> u16 \<Rightarrow> ProgramMap \<Rightarrow> ProgramMap" where
  "Set_pm pid number m = m(pid \<mapsto> number)"

text \<open>
  What the demuxer calls and the sources do not contain: the packet buffer over the
  reader (\<^verbatim>\<open>newPacketBuffer\<close>, \<^verbatim>\<open>next\<close>), the packet pool (\<^verbatim>\<open>Add\<close>, \<^verbatim>\<open>dump\<close>) and
  \<^verbatim>\<open>ParseData\<close>, here with the packets parser of the demuxer already given to it.
\<close>

record ('b, 'p, 'pool, 'pb, 'r) env =
  newPacketBuffer :: "'r \<Rightarrow> int \<Rightarrow> error + 'pb"
  pbNext :: "'pb \<Rightarrow> (error + 'p) \<times> 'pb"
  poolAdd :: "'p \<Rightarrow> 'pool \<Rightarrow> 'p list \<times> 'pool"
  poolDump :: "'pool \<Rightarrow> 'p list \<times> 'pool"
  ParseData :: "'p list \<Rightarrow> ProgramMap \<Rightarrow> error + ('b, 'p) Data list"

text \<open>\<open>ctx\<close> is the error that the context of the demuxer reports, if any.\<close>

record ('b, 'p, 'pool, 'pb, 'r) Demuxer =
  ctx :: "error option"
  dataBuffer :: "('b, 'p) Data list"
  optPacketSize :: int
  packetBuffer :: "'pb option"
  packetPool :: 'pool
  programMap :: ProgramMap
  reader :: 'r

definition NextPacket ::
  "('b, 'p, 'pool, 'pb, 'r) env \<Rightarrow> ('b, 'p, 'pool, 'pb, 'r) Demuxer
     \<Rightarrow> (error + 'p) \<times> ('b, 'p, 'pool, 'pb, 'r) Demuxer" where
  "NextPacket E dmx =
     (case ctx dmx of
        Some e \<Rightarrow> (Inl e, dmx)
      | None \<Rightarrow>
          (case (case packetBuffer dmx of
                   Some pb \<Rightarrow> Inr pb
                 | None \<Rightarrow> newPacketBuffer E (reader dmx) (optPacketSize dmx)) of
             Inl e \<Rightarrow> (Inl (Wrap ''astits: creating packet buffer failed'' e), dmx)
           | Inr pb \<Rightarrow>
               (case pbNext E pb of
                  (Inl e, pb') \<Rightarrow>
                    (Inl (if e \<noteq> ErrNoMorePackets
                          then Wrap ''astits: fetching next packet from buffer failed'' e
                          else e),
                     dmx\<lparr>packetBuffer := Some pb'\<rparr>)
                | (Inr p, pb') \<Rightarrow> (Inr p, dmx\<lparr>packetBuffer := Some pb'\<rparr>))))"

text \<open>The two nested loops of \<^verbatim>\<open>updateData\<close> over the data and the programs of a PAT.\<close>

fun setPrograms :: "PATProgram list \<Rightarrow> ProgramMap \<Rightarrow> ProgramMap" where
  "setPrograms [] m = m"
| "setPrograms (pgm # pgms) m =
     setPrograms pgms
       (if ProgramNumber pgm > 0 then Set_pm (ProgramMapID pgm) (ProgramNumber pgm) m else m)"

fun updateProgramMap :: "('b, 'p) Data list \<Rightarrow> ProgramMap \<Rightarrow> ProgramMap" where
  "updateProgramMap [] m = m"
| "updateProgramMap (v # vs) m =
     updateProgramMap vs
       (case DataPAT v of None \<Rightarrow> m | Some pat \<Rightarrow> setPrograms (Programs pat) m)"

definition updateData ::
  "('b, 'p) Data list \<Rightarrow> ('b, 'p, 'pool, 'pb, 'r) Demuxer
     \<Rightarrow> ('b, 'p) Data option \<times> ('b, 'p, 'pool, 'pb, 'r) Demuxer" where
  "updateData ds dmx =
     (case ds of
        [] \<Rightarrow> (None, dmx)
      | d # rest \<Rightarrow>
          (Some d, dmx\<lparr>dataBuffer := dataBuffer dmx @ rest,
                       programMap := updateProgramMap ds (programMap dmx)\<rparr>))"

text \<open>
  The loop over the dump of the packet pool, entered at the end of the stream. \<open>err\<close> is
  the named result \<^verbatim>\<open>err\<close>, which every \<^verbatim>\<open>ParseData\<close> assigns. The loop runs until the
  pool dumps nothing or a group yields data; whether it ends is up to the pool.
\<close>

partial_function (option) dumpLoop ::
  "('b, 'p, 'pool, 'pb, 'r) env \<Rightarrow> error option \<Rightarrow> ('b, 'p, 'pool, 'pb, 'r) Demuxer
     \<Rightarrow> ((('b, 'p) Data option \<times> error option) \<times> ('b, 'p, 'pool, 'pb, 'r) Demuxer) option" where
  "dumpLoop E err dmx =
     (case poolDump E (packetPool dmx) of
        (ps, pool') \<Rightarrow>
          if ps = [] then Some ((None, err), dmx\<lparr>packetPool := pool'\<rparr>)
          else
            (case ParseData E ps (programMap dmx) of
               Inl e \<Rightarrow> dumpLoop E (Some e) (dmx\<lparr>packetPool := pool'\<rparr>)
             | Inr ds \<Rightarrow>
                 (case updateData ds (dmx\<lparr>packetPool := pool'\<rparr>) of
                    (Some d, dmx') \<Rightarrow> Some ((Some d, None), dmx')
                  | (None, dmx') \<Rightarrow> dumpLoop E None dmx')))"

declare dumpLoop.simps [code]

text \<open>The loop \<^verbatim>\<open>for { ... }\<close> of \<^verbatim>\<open>NextData\<close> over the packets.\<close>

partial_function (option) nextDataLoop ::
  "('b, 'p, 'pool, 'pb, 'r) env \<Rightarrow> ('b, 'p, 'pool, 'pb, 'r) Demuxer
     \<Rightarrow> ((('b, 'p) Data option \<times> error option) \<times> ('b, 'p, 'pool, 'pb, 'r) Demuxer) option" where
  "nextDataLoop E dmx =
     (case NextPacket E dmx of
        (Inl e, dmx1) \<Rightarrow>
          if e = ErrNoMorePackets then dumpLoop E (Some e) dmx1
          else Some ((None, Some (Wrap ''astits: fetching next packet failed'' e)), dmx1)
      | (Inr p, dmx1) \<Rightarrow>
          (case poolAdd E p (packetPool dmx1) of
             (ps, pool') \<Rightarrow>
               if ps = [] then nextDataLoop E (dmx1\<lparr>packetPool := pool'\<rparr>)
               else
                 (case ParseData E ps (programMap dmx1) of
                    Inl e \<Rightarrow>
                      Some ((None, Some (Wrap ''astits: building new data failed'' e)),
                            dmx1\<lparr>packetPool := pool'\<rparr>)
                  | Inr ds \<Rightarrow>
                      (case updateData ds (dmx1\<lparr>packetPool := pool'\<rparr>) of
                         (Some d, dmx') \<Rightarrow> Some ((Some d, None), dmx')
                       | (None, dmx') \<Rightarrow> nextDataLoop E dmx'))))"

declare nextDataLoop.simps [code]

text \<open>
  \<^verbatim>\<open>NextData\<close> returns the data, the error and the demuxer as the call leaves it; \<open>None\<close>
  is a call that does not return.
\<close>

definition NextData ::
  "('b, 'p, 'pool, 'pb, 'r) env \<Rightarrow> ('b, 'p, 'pool, 'pb, 'r) Demuxer
     \<Rightarrow> ((('b, 'p) Data option \<times> error option) \<times> ('b, 'p, 'pool, 'pb, 'r) Demuxer) option" where
  "NextData E dmx =
     (case dataBuffer dmx of
        d # rest \<Rightarrow> Some ((Some d, None), dmx\<lparr>dataBuffer := rest\<rparr>)
      | [] \<Rightarrow> nextDataLoop E dmx)"

text \<open>\<open>n\<close> calls of \<^verbatim>\<open>NextData\<close> in a row, with what each returned.\<close>

fun NextDataTimes ::
  "('b, 'p, 'pool, 'pb, 'r) env \<Rightarrow> nat \<Rightarrow> ('b, 'p, 'pool, 'pb, 'r) Demuxer
     \<Rightarrow> ((('b, 'p) Data option \<times> error option) list \<times> ('b, 'p, 'pool, 'pb, 'r) Demuxer) option" where
  "NextDataTimes E 0 dmx = Some ([], dmx)"
| "NextDataTimes E (Suc n) dmx =
     (case NextData E dmx of
        None \<Rightarrow> None
      | Some (x, dmx1) \<Rightarrow>
          (case NextDataTimes E n dmx1 of
             None \<Rightarrow> None
           | Some (xs, dmx2) \<Rightarrow> Some (x # xs, dmx2)))"

section \<open>The collaborators of the demuxer, from the specification\<close>

text \<open>
  Modelled from the spec: the packet, the packet buffer, the packet pool and \<^verbatim>\<open>ParseData\<close>,
  none of which is among the sources. They are used where a run of the demuxer is
  evaluated on a concrete stream.

  A packet carries its PID, the payload unit start indicator and its payload. The stream
  is the list of the packets still to come; \<^verbatim>\<open>next\<close> returns one packet or
  \<^verbatim>\<open>ErrNoMorePackets\<close> at the end.
\<close>

record Packet =
  PacketPID :: u16
  PayloadUnitStartIndicator :: bool
  Payload :: "u8 list"

definition newPacketBufferSpec :: "Packet list \<Rightarrow> int \<Rightarrow> error + Packet list" where
  "newPacketBufferSpec r packetSize = Inr r"

definition pbNextSpec :: "Packet list \<Rightarrow> (error + Packet) \<times> Packet list" where
  "pbNextSpec pb = (case pb of [] \<Rightarrow> (Inl ErrNoMorePackets, []) | p # ps \<Rightarrow> (Inr p, ps))"

text \<open>
  The pool maps a PID to the packets that accumulate for it. \<^verbatim>\<open>add\<close>: if the PID is not
  tracked or the start indicator is set, the buffer accumulated for that PID is emitted
  as a completed group and a new buffer starts with this packet; otherwise the packet is
  appended and nothing is emitted. \<^verbatim>\<open>dump\<close> emits the remaining buffers by ascending PID,
  one for each call.
\<close>

type_synonym pool = "(u16 \<times> Packet list) list"

definition poolAddSpec :: "Packet \<Rightarrow> pool \<Rightarrow> Packet list \<times> pool" where
  "poolAddSpec p pl =
     (case map_of pl (PacketPID p) of
        None \<Rightarrow> ([], AList.update (PacketPID p) [p] pl)
      | Some ps \<Rightarrow>
          if PayloadUnitStartIndicator p then (ps, AList.update (PacketPID p) [p] pl)
          else ([], AList.update (PacketPID p) (ps @ [p]) pl))"

definition poolDumpSpec :: "pool \<Rightarrow> Packet list \<times> pool" where
  "poolDumpSpec pl =
     (case sort_key fst (filter (\<lambda>(k, ps). ps \<noteq> []) pl) of
        [] \<Rightarrow> ([], [])
      | (k, ps) # _ \<Rightarrow> (ps, AList.delete k pl))"

text \<open>
  The classifier: PID 0 carries the PAT; PID 1 (CAT) is ignored; the PIDs \<open>0x10\<close> to
  \<open>0x14\<close>, \<open>0x1E\<close> and \<open>0x1F\<close> and every PID of the program map carry PSI; a payload that
  starts with \<open>00 00 01\<close> is a PES, whose parser is not among the sources; anything else
  is discarded. A PSI payload is parsed by \<open>parsePSIData\<close> and turned into data units by
  \<open>toData\<close>.
\<close>

definition IsPSIPayloadSpec :: "u16 \<Rightarrow> ProgramMap \<Rightarrow> bool" where
  "IsPSIPayloadSpec pid pm \<longleftrightarrow>
     pid = 0 \<or> (0x10 \<le> pid \<and> pid \<le> 0x14) \<or> pid = 0x1E \<or> pid = 0x1F \<or> pm pid \<noteq> None"

definition ParseDataSpec :: "Packet list \<Rightarrow> ProgramMap \<Rightarrow> error + (unit, Packet) Data list" where
  "ParseDataSpec ps pm =
     (case ps of
        [] \<Rightarrow> Inr []
      | fp # _ \<Rightarrow>
          if PacketPID fp = 1 then Inr []
          else if IsPSIPayloadSpec (PacketPID fp) pm then
            (case parsePSIData patParsers (NewBytesIterator (concat (map Payload ps))) of
               (d, Inl e) \<Rightarrow> Inl (Wrap ''astits: parsing PSI data failed'' e)
             | (d, Inr _) \<Rightarrow> toData d (Some fp) (PacketPID fp))
          else if take 3 (concat (map Payload ps)) = [0, 0, 1] then Inl ErrNoParser
          else Inr [])"

definition specEnv :: "(unit, Packet, pool, Packet list, Packet list) env" where
  "specEnv = \<lparr>newPacketBuffer = newPacketBufferSpec, pbNext = pbNextSpec,
     poolAdd = poolAddSpec, poolDump = poolDumpSpec, ParseData = ParseDataSpec\<rparr>"

definition New :: "Packet list \<Rightarrow> (unit, Packet, pool, Packet list, Packet list) Demuxer" where
  "New r = \<lparr>ctx = None, dataBuffer = [], optPacketSize = 0, packetBuffer = None,
     packetPool = [], programMap = NewProgramMap, reader = r\<rparr>"

section \<open>Concrete inputs\<close>

text \<open>
  The PAT section of the single-program scenario: table identifier 0, section length 13,
  transport stream 1, one program \<open>(1, 0x1000)\<close>, CRC32 \<open>0x2AB104B2\<close>.
\<close>

definition patSection :: "u8 list" where
  "patSection = [0x00, 0xB0, 0x0D, 0x00, 0x01, 0xC1, 0x00, 0x00, 0x00, 0x01, 0xF0, 0x00,
                 0x2A, 0xB1, 0x04, 0xB2]"

definition patHeader :: PSISectionHeader where
  "patHeader = \<lparr>PrivateBit = False, SectionLength = 13, SectionSyntaxIndicator = True,
     TableID = 0, TableType = ''PAT''\<rparr>"

definition patSyntax :: "unit PSISectionSyntax" where
  "patSyntax = \<lparr>SyntaxData = Some (emptySyntaxData\<lparr>PAT := Some
       \<lparr>Programs = [\<lparr>ProgramMapID = 0x1000, ProgramNumber = 1\<rparr>], TransportStreamID = 1\<rparr>\<rparr>),
     SyntaxHeader = Some \<lparr>CurrentNextIndicator = True, LastSectionNumber = 0,
       SectionNumber = 0, TableIDExtension = 1, VersionNumber = 0\<rparr>\<rparr>"

definition patParsed :: "unit PSISection" where
  "patParsed = \<lparr>CRC32 = 0x2AB104B2, Header = Some patHeader, Syntax = Some patSyntax\<rparr>"

text \<open>The section that a table identifier \<open>0xFF\<close> leaves in the list.\<close>

definition nullSection :: "unit PSISection" where
  "nullSection = \<lparr>CRC32 = 0, Header = Some (emptyHeader\<lparr>TableID := 255, TableType := ''Null''\<rparr>),
     Syntax = None\<rparr>"

section \<open>Verification\<close>

subsection \<open>The iterator and the section parser\<close>

lemma NextByte_Inr: "NextByte i = Inr (b, i') \<Longrightarrow>
   it_bs i' = it_bs i \<and> it_offset i' = it_offset i + 1 \<and> 0 \<le> it_offset i \<and> it_offset i < int (length (it_bs i)) \<and> b = it_bs i ! nat (it_offset i)"
  by (auto simp: NextByte_def split: if_splits)

lemma NextByte_inside:
  "0 \<le> it_offset i \<Longrightarrow> it_offset i < int (length (it_bs i)) \<Longrightarrow>
     NextByte i = Inr (it_bs i ! nat (it_offset i), i\<lparr>it_offset := it_offset i + 1\<rparr>)"
  by (simp add: NextByte_def)

lemma NextBytes_inside:
  "0 \<le> it_offset i \<Longrightarrow> 0 \<le> n \<Longrightarrow> it_offset i + n \<le> int (length (it_bs i)) \<Longrightarrow>
     NextBytes n i = Inr (take (nat n) (drop (nat (it_offset i)) (it_bs i)),
                          i\<lparr>it_offset := it_offset i + n\<rparr>)"
  by (simp add: NextBytes_def)

lemma wrap64_id: "- (2 ^ 63) \<le> x \<Longrightarrow> x < 2 ^ 63 \<Longrightarrow> wrap64 x = x"
  by (simp add: wrap64_def)

text \<open>
  A read of at most \<open>2^20\<close> bytes from a cursor that is not negative and not more than
  \<open>2^20\<close> bytes past the end fails with the error when the bytes are not there: in a state
  of the program the sum is below \<open>2^63\<close>.
\<close>

lemma offsetPlus_near:
  assumes "0 \<le> it_offset i" "it_offset i \<le> int (length (it_bs i)) + 2 ^ 20" "0 \<le> n" "n \<le> 2 ^ 20"
  shows "offsetPlus i n = it_offset i + n"
proof (cases "int (length (it_bs i)) < 2 ^ 62 \<and> goInt (it_offset i) \<and> goInt n")
  case True
  with assms have "it_offset i + n < 2 ^ 63" "- (2 ^ 63) \<le> it_offset i + n" by simp_all
  then show ?thesis using True by (simp add: offsetPlus_def wrap64_id)
next
  case False
  then show ?thesis by (simp only: offsetPlus_def if_False)
qed

lemma NextBytes_short:
  assumes "0 \<le> it_offset i" "it_offset i \<le> int (length (it_bs i)) + 2 ^ 20" "0 \<le> n" "n \<le> 2 ^ 20"
      and "int (length (it_bs i)) < it_offset i + n"
  shows "NextBytes n i = Inl ErrShortRead"
  using assms by (simp add: NextBytes_def offsetPlus_near)

lemma NextBytes_Inr: "NextBytes n i = Inr (b, i') \<Longrightarrow>
   it_bs i' = it_bs i \<and> it_offset i' = it_offset i + n \<and> 0 \<le> it_offset i \<and> 0 \<le> n
   \<and> it_offset i + n \<le> int (length (it_bs i)) \<and> b = take (nat n) (drop (nat (it_offset i)) (it_bs i))"
  by (auto simp: NextBytes_def split: if_splits)

lemma Seek_simps [simp]: "it_bs (Seek n i) = it_bs i" "it_offset (Seek n i) = n"
  by (simp_all add: Seek_def)

lemma parsePSISectionHeader_Inr:
  assumes "parsePSISectionHeader i = Inr ((h, oS, oSS, oSE, oE), i1)"
  shows "it_bs i1 = it_bs i" and "oS = it_offset i" and "0 \<le> it_offset i"
    and "TableType h = psiTableType (TableID h)"
    and "shouldStopPSIParsing (TableType h) \<Longrightarrow> it_offset i1 = it_offset i + 1"
    and "\<not> shouldStopPSIParsing (TableType h) \<Longrightarrow>
           it_offset i1 = it_offset i + 3 \<and> oSS = it_offset i + 3 \<and> oE = oSS + uint (SectionLength h)
           \<and> oSE = (if hasCRC32 (TableType h) then oE - 4 else oE)"
    and "it_offset i < int (length (it_bs i))"
proof -
  obtain b ia where nb: "NextByte i = Inr (b, ia)"
    using assms by (cases "NextByte i") (auto simp: parsePSISectionHeader_def)
  note NB = NextByte_Inr [OF nb]
  define h0 where "h0 = emptyHeader\<lparr>TableID := uint b, TableType := psiTableType (uint b)\<rparr>"
  have h0: "TableType h0 = psiTableType (uint b)" "TableID h0 = uint b"
    by (simp_all add: h0_def)
  have all: "it_bs i1 = it_bs i \<and> oS = it_offset i \<and> TableType h = psiTableType (TableID h)
      \<and> (shouldStopPSIParsing (TableType h) \<longrightarrow> it_offset i1 = it_offset i + 1)
      \<and> (\<not> shouldStopPSIParsing (TableType h) \<longrightarrow>
           it_offset i1 = it_offset i + 3 \<and> oSS = it_offset i + 3 \<and> oE = oSS + uint (SectionLength h)
           \<and> oSE = (if hasCRC32 (TableType h) then oE - 4 else oE))"
  proof (cases "shouldStopPSIParsing (psiTableType (uint b))")
    case True
    then have "parsePSISectionHeader i = Inr ((h0, Offset i, 0, 0, 0), ia)"
      by (simp add: parsePSISectionHeader_def nb Let_def h0_def)
    with assms have "h = h0" "oS = Offset i" "i1 = ia" by simp_all
    then show ?thesis using True NB h0 by (simp add: Offset_def)
  next
    case False
    obtain b2 ib where nbs: "NextBytes 2 ia = Inr (b2, ib)"
      using assms False
      by (cases "NextBytes 2 ia") (auto simp: parsePSISectionHeader_def nb Let_def)
    note NBS = NextBytes_Inr [OF nbs]
    let ?h1 = "h0\<lparr>SectionSyntaxIndicator := (b2 ! 0) AND 0x80 > 0,
                          PrivateBit := (b2 ! 0) AND 0x40 > 0,
                          SectionLength := push_bit 8 (ucast ((b2 ! 0) AND 0xf)) OR ucast (b2 ! 1)\<rparr>"
    have h1: "TableType ?h1 = psiTableType (uint b)" "TableID ?h1 = uint b"
      by (simp_all add: h0)
    have "parsePSISectionHeader i =
        Inr ((?h1, Offset i, Offset ib, (if hasCRC32 (psiTableType (uint b))
                then Offset ib + uint (SectionLength ?h1) - 4
                else Offset ib + uint (SectionLength ?h1)),
              Offset ib + uint (SectionLength ?h1)), ib)"
      using False
      by (simp add: parsePSISectionHeader_def nb nbs Let_def h0_def)
    with assms have "((h, oS, oSS, oSE, oE), i1) =
        ((?h1, Offset i, Offset ib, (if hasCRC32 (psiTableType (uint b))
                then Offset ib + uint (SectionLength ?h1) - 4
                else Offset ib + uint (SectionLength ?h1)),
              Offset ib + uint (SectionLength ?h1)), ib)"
      by (simp only: sum.inject)
    then have "h = ?h1 \<and> oS = Offset i \<and> oSS = Offset ib \<and> i1 = ib
        \<and> oE = Offset ib + uint (SectionLength ?h1)
        \<and> oSE = (if hasCRC32 (psiTableType (uint b))
                then Offset ib + uint (SectionLength ?h1) - 4
                else Offset ib + uint (SectionLength ?h1))"
      by (auto simp only: prod.inject)
    then show ?thesis using False NB NBS h1 by (simp add: Offset_def)
  qed
  show "it_bs i1 = it_bs i" and "oS = it_offset i" and "0 \<le> it_offset i"
    and "TableType h = psiTableType (TableID h)"
    and "shouldStopPSIParsing (TableType h) \<Longrightarrow> it_offset i1 = it_offset i + 1"
    and "\<not> shouldStopPSIParsing (TableType h) \<Longrightarrow>
           it_offset i1 = it_offset i + 3 \<and> oSS = it_offset i + 3 \<and> oE = oSS + uint (SectionLength h)
           \<and> oSE = (if hasCRC32 (TableType h) then oE - 4 else oE)"
    and "it_offset i < int (length (it_bs i))"
    using all NB by simp_all
qed

lemma parsePSISectionSyntaxHeader_bs:
  assumes "parsePSISectionSyntaxHeader i = Inr (sh, i')"
  shows "it_bs i' = it_bs i"
proof -
  obtain b2 i1 where 1: "NextBytes 2 i = Inr (b2, i1)"
    using assms by (cases "NextBytes 2 i") (auto simp: parsePSISectionSyntaxHeader_def)
  obtain b i2 where 2: "NextByte i1 = Inr (b, i2)"
    using assms 1 by (cases "NextByte i1") (auto simp: parsePSISectionSyntaxHeader_def)
  obtain sn i3 where 3: "NextByte i2 = Inr (sn, i3)"
    using assms 1 2 by (cases "NextByte i2") (auto simp: parsePSISectionSyntaxHeader_def)
  obtain lsn i4 where 4: "NextByte i3 = Inr (lsn, i4)"
    using assms 1 2 3 by (cases "NextByte i3") (auto simp: parsePSISectionSyntaxHeader_def)
  have "i' = i4" using assms 1 2 3 4 by (simp add: parsePSISectionSyntaxHeader_def)
  then show ?thesis
    using NextBytes_Inr [OF 1] NextByte_Inr [OF 2] NextByte_Inr [OF 3] NextByte_Inr [OF 4] by simp
qed

lemma table_case_bs:
  "(case r of Inl e \<Rightarrow> Inl (w e) | Inr (t, n) \<Rightarrow> Inr (f t, Seek n i)) = Inr (d, i')
     \<Longrightarrow> it_bs i' = it_bs i"
  by (cases r) auto

lemma ext_case_bs:
  "(case extOf sh of Inl e \<Rightarrow> Inl e | Inr ext \<Rightarrow> g ext) = Inr (d, i')
     \<Longrightarrow> \<exists>ext. g ext = Inr (d, i')"
  by (cases "extOf sh") auto

lemma parsePSISectionSyntaxData_bs:
  "parsePSISectionSyntaxData P i h sh e = Inr (d, i') \<Longrightarrow> it_bs i' = it_bs i"
  unfolding parsePSISectionSyntaxData_def
  by (simp split: if_splits) (auto dest!: ext_case_bs table_case_bs)

lemma parsePSISectionSyntax_bs:
  assumes "parsePSISectionSyntax P i h e = Inr (sx, i')"
  shows "it_bs i' = it_bs i"
proof (cases "hasPSISyntaxHeader (TableType h)")
  case True
  obtain sh i1 where 1: "parsePSISectionSyntaxHeader i = Inr (sh, i1)"
    using assms True by (cases "parsePSISectionSyntaxHeader i") (auto simp: parsePSISectionSyntax_def)
  obtain d i2 where 2: "parsePSISectionSyntaxData P i1 h (Some sh) e = Inr (d, i2)"
    using assms True 1
    by (cases "parsePSISectionSyntaxData P i1 h (Some sh) e") (auto simp: parsePSISectionSyntax_def)
  have "i' = i2" using assms True 1 2 by (simp add: parsePSISectionSyntax_def)
  then show ?thesis
    using parsePSISectionSyntaxHeader_bs [OF 1] parsePSISectionSyntaxData_bs [OF 2] by simp
next
  case False
  obtain d i2 where 2: "parsePSISectionSyntaxData P i h None e = Inr (d, i2)"
    using assms False
    by (cases "parsePSISectionSyntaxData P i h None e") (auto simp: parsePSISectionSyntax_def)
  have "i' = i2" using assms False 2 by (simp add: parsePSISectionSyntax_def)
  then show ?thesis using parsePSISectionSyntaxData_bs [OF 2] by simp
qed

lemma checkCRC32_bs:
  assumes "checkCRC32 i a b = Inr (c, i')"
  shows "it_bs i' = it_bs i"
proof -
  obtain b4 i1 where 1: "NextBytes 4 (Seek b i) = Inr (b4, i1)"
    using assms by (cases "NextBytes 4 (Seek b i)") (auto simp: checkCRC32_def parseCRC32_def)
  obtain dat i2 where 2: "NextBytes (b - a) (Seek a i1) = Inr (dat, i2)"
    using assms 1
    by (cases "NextBytes (b - a) (Seek a i1)") (auto simp: checkCRC32_def parseCRC32_def)
  have "i' = i2" using assms 1 2
    by (simp add: checkCRC32_def parseCRC32_def computeCRC32_def split: if_splits)
  then show ?thesis using NextBytes_Inr [OF 1] NextBytes_Inr [OF 2] by simp
qed

lemma parsePSISection_advances:
  assumes "parsePSISection P i = Inr (s, st, i')"
  shows "it_bs i' = it_bs i \<and> it_offset i < it_offset i'"
proof -
  from assms obtain h oS oSS oSE oE i1 where
    hd: "parsePSISectionHeader i = Inr ((h, oS, oSS, oSE, oE), i1)"
    by (auto simp: parsePSISection_def split: sum.splits prod.splits)
  note H = parsePSISectionHeader_Inr [OF hd]
  show ?thesis
  proof (cases "shouldStopPSIParsing (TableType h)")
    case True
    with assms hd H show ?thesis by (simp add: parsePSISection_def)
  next
    case False
    with H have oE: "it_offset i + 3 \<le> oE" by simp
    from assms hd False have "it_offset i' = oE \<and> it_bs i' = it_bs i1"
      by (auto simp: parsePSISection_def Let_def split: if_splits sum.splits prod.splits
           dest!: parsePSISectionSyntax_bs checkCRC32_bs)
    with oE H(1) show ?thesis by simp
  qed
qed

termination parsePSISections
  by (relation "measure (\<lambda>(P, i, stop, acc). nat (int (length (it_bs i)) - it_offset i))")
     (auto simp: HasBytesLeft_def dest!: parsePSISection_advances)

declare parsePSISections.simps [simp del]

subsection \<open>The CRC32 check of a section\<close>

lemma pat_hd: "parsePSISectionHeader (NewBytesIterator patSection)
     = Inr ((patHeader, 0, 3, 12, 16), \<lparr>it_bs = patSection, it_offset = 3\<rparr>)"
  by code_simp

lemma pat_sx: "parsePSISectionSyntax patParsers \<lparr>it_bs = patSection, it_offset = 3\<rparr> patHeader 12
     = Inr (patSyntax, \<lparr>it_bs = patSection, it_offset = 12\<rparr>)"
  by code_simp

text \<open>
  C2, as the code has it. Take a section whose header parses, whose table type does not
  stop the parsing, whose section length is positive and whose syntax parses. If the table
  type is one of PAT, PMT, EIT, NIT, TOT, SDT, \<open>parsePSISection\<close> reads the 4 bytes at offset
  \<open>section_end - 4\<close> as a big-endian CRC32 (a short read is an error when the buffer ends
  before \<open>section_end\<close>), computes the CRC32 over the bytes of the section from its first
  header byte up to, and excluding, \<open>section_end - 4\<close>, and returns the mismatch error
  exactly when the two values differ; otherwise it returns the section with the stored
  CRC32 and the cursor at \<open>section_end\<close>. For every other table type no CRC32 is read or
  computed: the section is returned with the CRC32 field left at zero.
\<close>

theorem parsePSISection_crc32:
  assumes hd: "parsePSISectionHeader i = Inr ((h, oS, oSS, oSE, oE), i1)"
      and ns: "\<not> shouldStopPSIParsing (TableType h)"
      and len: "SectionLength h > 0"
      and sx: "parsePSISectionSyntax P i1 h oSE = Inr (sx, i2)"
  shows "parsePSISection P i =
     (if hasCRC32 (TableType h) then
        (if int (length (it_bs i)) < oE
         then Inl (Wrap ''astits: parsing CRC32 failed''
                    (Wrap ''astits: fetching next bytes failed'' ErrShortRead))
         else if crc32Bytes 0xffffffff (take (nat (oE - 4 - oS)) (drop (nat oS) (it_bs i)))
                 \<noteq> be32 (take 4 (drop (nat (oE - 4)) (it_bs i)))
         then Inl (ErrCRC32 (be32 (take 4 (drop (nat (oE - 4)) (it_bs i))))
                    (crc32Bytes 0xffffffff (take (nat (oE - 4 - oS)) (drop (nat oS) (it_bs i)))))
         else Inr (\<lparr>CRC32 = be32 (take 4 (drop (nat (oE - 4)) (it_bs i))),
                     Header = Some h, Syntax = Some sx\<rparr>, False, Seek oE i))
      else Inr (\<lparr>CRC32 = 0, Header = Some h, Syntax = Some sx\<rparr>, False, Seek oE i))"
proof -
  note H = parsePSISectionHeader_Inr [OF hd]
  have bs2: "it_bs i2 = it_bs i" using parsePSISectionSyntax_bs [OF sx] H(1) by simp
  have seek: "\<And>n. Seek n i2 = Seek n i" using bs2 by (simp add: Seek_def)
  show ?thesis
  proof (cases "hasCRC32 (TableType h)")
    case False
    then show ?thesis using hd ns len sx by (simp add: parsePSISection_def seek)
  next
    case True
    have sl: "1 \<le> uint (SectionLength h)" using len by (simp add: word_less_def)
    have offs: "oSE = oE - 4" "oE = oS + 3 + uint (SectionLength h)" "0 \<le> oS"
        "oS < int (length (it_bs i))"
      using H ns True by auto
    have u: "uint (SectionLength h) < 2 ^ 16"
      using unsigned_less [of "SectionLength h", where 'a = int] by simp
    have chk: "checkCRC32 i2 oS oSE =
        (if int (length (it_bs i)) < oE
         then Inl (Wrap ''astits: parsing CRC32 failed''
                    (Wrap ''astits: fetching next bytes failed'' ErrShortRead))
         else if crc32Bytes 0xffffffff (take (nat (oE - 4 - oS)) (drop (nat oS) (it_bs i)))
                 \<noteq> be32 (take 4 (drop (nat (oE - 4)) (it_bs i)))
         then Inl (ErrCRC32 (be32 (take 4 (drop (nat (oE - 4)) (it_bs i))))
                    (crc32Bytes 0xffffffff (take (nat (oE - 4 - oS)) (drop (nat oS) (it_bs i)))))
         else Inr (be32 (take 4 (drop (nat (oE - 4)) (it_bs i))), Seek (oE - 4) i))"
    proof (cases "int (length (it_bs i)) < oE")
      case True
      have "NextBytes 4 (Seek oSE i2) = Inl ErrShortRead"
        using True sl u offs bs2 by (intro NextBytes_short) simp_all
      then show ?thesis using True by (simp add: checkCRC32_def parseCRC32_def)
    next
      case False
      then show ?thesis using sl offs bs2
        by (auto simp: checkCRC32_def parseCRC32_def NextBytes_def computeCRC32_def Seek_def)
    qed
    show ?thesis using hd ns len sx True
      by (simp add: parsePSISection_def chk Seek_def bs2)
  qed
qed

theorem parsePSISection_crc32_witness:
  "parsePSISectionHeader (NewBytesIterator patSection)
     = Inr ((patHeader, 0, 3, 12, 16), \<lparr>it_bs = patSection, it_offset = 3\<rparr>)
   \<and> \<not> shouldStopPSIParsing (TableType patHeader)
   \<and> SectionLength patHeader > 0
   \<and> parsePSISectionSyntax patParsers \<lparr>it_bs = patSection, it_offset = 3\<rparr> patHeader 12
     = Inr (patSyntax, \<lparr>it_bs = patSection, it_offset = 12\<rparr>)
   \<and> parsePSISection patParsers (NewBytesIterator patSection)
     = Inr (\<lparr>CRC32 = 0x2AB104B2, Header = Some patHeader, Syntax = Some patSyntax\<rparr>, False,
            \<lparr>it_bs = patSection, it_offset = 16\<rparr>)"
proof -
  have a: "\<not> shouldStopPSIParsing (TableType patHeader)" by code_simp
  have b: "SectionLength patHeader > 0" by code_simp
  have c: "hasCRC32 (TableType patHeader)" by code_simp
  have l: "\<not> int (length (it_bs (NewBytesIterator patSection))) < 16" by code_simp
  have d: "crc32Bytes 0xffffffff (take (nat (16 - 4 - 0)) (drop (nat 0) (it_bs (NewBytesIterator patSection)))) = 0x2AB104B2"
    by code_simp
  have e: "be32 (take 4 (drop (nat (16 - 4)) (it_bs (NewBytesIterator patSection)))) = 0x2AB104B2"
    by code_simp
  have f: "Seek 16 (NewBytesIterator patSection) = \<lparr>it_bs = patSection, it_offset = 16\<rparr>"
    by (simp add: Seek_def NewBytesIterator_def)
  show ?thesis
    using parsePSISection_crc32 [OF pat_hd a b pat_sx]
    by (simp only: pat_hd pat_sx a b c l d e f if_True if_False simp_thms)
qed

text \<open>
  The claim as stated, an error exactly when the two values differ, fails: a PAT section of
  section length 4 that ends the buffer carries the right CRC32 of its three header bytes,
  and \<open>parsePSISection\<close> still returns an error, since the syntax header cannot be read.
\<close>

theorem parsePSISection_valid_crc32_error:
  "computeCRC32 [0x00, 0xB0, 0x04] = Inr (be32 [0x16, 0x1E, 0x7E, 0x71])
   \<and> parsePSISectionHeader (NewBytesIterator [0x00, 0xB0, 0x04, 0x16, 0x1E, 0x7E, 0x71])
      = Inr ((\<lparr>PrivateBit = False, SectionLength = 4, SectionSyntaxIndicator = True,
               TableID = 0, TableType = PSITableTypePAT\<rparr>, 0, 3, 3, 7),
             \<lparr>it_bs = [0x00, 0xB0, 0x04, 0x16, 0x1E, 0x7E, 0x71], it_offset = 3\<rparr>)
   \<and> parsePSISection patParsers (NewBytesIterator [0x00, 0xB0, 0x04, 0x16, 0x1E, 0x7E, 0x71])
      = Inl (Wrap ''astits: parsing PSI section syntax failed''
              (Wrap ''astits: parsing PSI section syntax header failed''
                (Wrap ''astits: fetching next byte failed'' ErrShortRead)))"
  by code_simp

subsection \<open>Stopping at a Null or Unknown table identifier\<close>

lemma parsePSISectionHeader_stop:
  assumes left: "HasBytesLeft i" and pos: "0 \<le> it_offset i"
      and stop: "shouldStopPSIParsing (psiTableType (uint (it_bs i ! nat (it_offset i))))"
  shows "parsePSISectionHeader i =
           Inr ((emptyHeader\<lparr>TableID := uint (it_bs i ! nat (it_offset i)),
                              TableType := psiTableType (uint (it_bs i ! nat (it_offset i)))\<rparr>,
                 it_offset i, 0, 0, 0), i\<lparr>it_offset := it_offset i + 1\<rparr>)"
proof -
  have nb: "NextByte i = Inr (it_bs i ! nat (it_offset i), i\<lparr>it_offset := it_offset i + 1\<rparr>)"
    using left pos by (simp add: NextByte_inside HasBytesLeft_def)
  show ?thesis using stop by (simp add: parsePSISectionHeader_def nb Let_def Offset_def)
qed

lemma parsePSISections_stop:
  assumes left: "HasBytesLeft i" and pos: "0 \<le> it_offset i"
      and stop: "shouldStopPSIParsing (psiTableType (uint (it_bs i ! nat (it_offset i))))"
  shows "parsePSISections P i False acc =
           (acc @ [\<lparr>CRC32 = 0,
                  Header = Some (emptyHeader\<lparr>TableID := uint (it_bs i ! nat (it_offset i)),
                              TableType := psiTableType (uint (it_bs i ! nat (it_offset i)))\<rparr>),
                  Syntax = None\<rparr>], Inr (i\<lparr>it_offset := it_offset i + 1\<rparr>))"
proof -
  let ?h = "emptyHeader\<lparr>TableID := uint (it_bs i ! nat (it_offset i)),
                              TableType := psiTableType (uint (it_bs i ! nat (it_offset i)))\<rparr>"
  let ?j = "i\<lparr>it_offset := it_offset i + 1\<rparr>"
  have sec: "parsePSISection P i = Inr (\<lparr>CRC32 = 0, Header = Some ?h, Syntax = None\<rparr>, True, ?j)"
    using stop by (simp add: parsePSISection_def parsePSISectionHeader_stop [OF left pos stop])
  have "parsePSISections P i False acc =
          parsePSISections P ?j True (acc @ [\<lparr>CRC32 = 0, Header = Some ?h, Syntax = None\<rparr>])"
    by (subst parsePSISections.simps) (simp add: left sec)
  also have "\<dots> = (acc @ [\<lparr>CRC32 = 0, Header = Some ?h, Syntax = None\<rparr>], Inr ?j)"
    by (subst parsePSISections.simps) simp
  finally show ?thesis .
qed

text \<open>The loop after a run of \<open>k\<close> sections goes on from the end of the run.\<close>

lemma parsePSISections_run:
  "sectionsRun P k i = Some (ss, j) \<Longrightarrow>
     parsePSISections P i False acc = parsePSISections P j False (acc @ ss)"
proof (induction k arbitrary: i ss acc)
  case 0
  then show ?case by simp
next
  case (Suc k)
  from Suc.prems obtain s i' ss' where
    left: "HasBytesLeft i" and sec: "parsePSISection P i = Inr (s, False, i')"
    and rest: "sectionsRun P k i' = Some (ss', j)" and ss: "ss = s # ss'"
    by (auto split: if_splits sum.splits option.splits)
  have "parsePSISections P i False acc = parsePSISections P i' False (acc @ [s])"
    by (subst parsePSISections.simps) (simp add: left sec)
  also have "\<dots> = parsePSISections P j False ((acc @ [s]) @ ss')"
    by (rule Suc.IH [OF rest])
  finally show ?case by (simp add: ss)
qed

text \<open>
  C9, as the code has it. Take any payload whose pointer field is read and whose loop has
  parsed \<open>k\<close> sections \<open>ss\<close> when the byte at the cursor classifies as Null or Unknown.
  The header parser reads that one byte and nothing else: the offsets of the section keep
  their zero value and the cursor is one byte further, so no section length, syntax or
  CRC32 byte of this or a later section is consumed. \<open>parsePSIData\<close> returns, without
  error, the sections parsed so far followed by one more section, which holds only the
  header with the Null or Unknown table identifier.
\<close>

theorem parsePSIData_stop:
  assumes ptr: "NextByte i0 = Inr (p, i1)"
      and run: "sectionsRun P k (Skip (uint p) i1) = Some (ss, i)"
      and left: "HasBytesLeft i" and pos: "0 \<le> it_offset i"
      and stop: "shouldStopPSIParsing (psiTableType (uint (it_bs i ! nat (it_offset i))))"
  shows "parsePSISectionHeader i =
           Inr ((emptyHeader\<lparr>TableID := uint (it_bs i ! nat (it_offset i)),
                              TableType := psiTableType (uint (it_bs i ! nat (it_offset i)))\<rparr>,
                 it_offset i, 0, 0, 0), i\<lparr>it_offset := it_offset i + 1\<rparr>)
       \<and> parsePSIData P i0 =
           (\<lparr>PointerField = uint p,
             Sections = ss @ [\<lparr>CRC32 = 0,
                  Header = Some (emptyHeader\<lparr>TableID := uint (it_bs i ! nat (it_offset i)),
                              TableType := psiTableType (uint (it_bs i ! nat (it_offset i)))\<rparr>),
                  Syntax = None\<rparr>]\<rparr>,
            Inr (i\<lparr>it_offset := it_offset i + 1\<rparr>))"
proof -
  have "parsePSISections P (Skip (uint p) i1) False [] = parsePSISections P i False ([] @ ss)"
    by (rule parsePSISections_run [OF run])
  then have "parsePSISections P (Skip (uint p) i1) False [] =
      (ss @ [\<lparr>CRC32 = 0,
                  Header = Some (emptyHeader\<lparr>TableID := uint (it_bs i ! nat (it_offset i)),
                              TableType := psiTableType (uint (it_bs i ! nat (it_offset i)))\<rparr>),
                  Syntax = None\<rparr>], Inr (i\<lparr>it_offset := it_offset i + 1\<rparr>))"
    by (simp add: parsePSISections_stop [OF left pos stop])
  then show ?thesis
    by (simp add: parsePSIData_def ptr parsePSISectionHeader_stop [OF left pos stop])
qed

lemma stop_run_ptr:
  "NextByte (NewBytesIterator (0 # patSection @ [0xFF, 0xB0, 0x0D]))
     = Inr (0, \<lparr>it_bs = 0 # patSection @ [0xFF, 0xB0, 0x0D], it_offset = 1\<rparr>)"
  by code_simp

lemma stop_run_sections:
  "sectionsRun patParsers 1
       (Skip (uint (0 :: u8)) \<lparr>it_bs = 0 # patSection @ [0xFF, 0xB0, 0x0D], it_offset = 1\<rparr>)
     = Some ([patParsed], \<lparr>it_bs = 0 # patSection @ [0xFF, 0xB0, 0x0D], it_offset = 17\<rparr>)"
  by code_simp

theorem parsePSIData_stop_witness:
  "NextByte (NewBytesIterator (0 # patSection @ [0xFF, 0xB0, 0x0D]))
     = Inr (0, \<lparr>it_bs = 0 # patSection @ [0xFF, 0xB0, 0x0D], it_offset = 1\<rparr>)
   \<and> sectionsRun patParsers 1
       (Skip (uint (0 :: u8)) \<lparr>it_bs = 0 # patSection @ [0xFF, 0xB0, 0x0D], it_offset = 1\<rparr>)
     = Some ([patParsed], \<lparr>it_bs = 0 # patSection @ [0xFF, 0xB0, 0x0D], it_offset = 17\<rparr>)
   \<and> HasBytesLeft \<lparr>it_bs = 0 # patSection @ [0xFF, 0xB0, 0x0D], it_offset = 17\<rparr>
   \<and> shouldStopPSIParsing (psiTableType (uint ((0 # patSection @ [0xFF, 0xB0, 0x0D]) ! nat 17)))
   \<and> parsePSIData patParsers (NewBytesIterator (0 # patSection @ [0xFF, 0xB0, 0x0D]))
       = (\<lparr>PointerField = 0, Sections = [patParsed, nullSection]\<rparr>,
          Inr \<lparr>it_bs = 0 # patSection @ [0xFF, 0xB0, 0x0D], it_offset = 18\<rparr>)"
proof -
  let ?i = "\<lparr>it_bs = 0 # patSection @ [0xFF, 0xB0, 0x0D], it_offset = 17\<rparr>"
  have a: "HasBytesLeft ?i" by code_simp
  have b: "0 \<le> it_offset ?i" by simp
  have c: "shouldStopPSIParsing (psiTableType (uint (it_bs ?i ! nat (it_offset ?i))))"
    by code_simp
  have d: "uint (it_bs ?i ! nat (it_offset ?i)) = 255" by code_simp
  have e: "psiTableType 255 = ''Null''" by code_simp
  have f: "?i\<lparr>it_offset := it_offset ?i + 1\<rparr>
             = \<lparr>it_bs = 0 # patSection @ [0xFF, 0xB0, 0x0D], it_offset = 18\<rparr>"
    by simp
  have "parsePSIData patParsers (NewBytesIterator (0 # patSection @ [0xFF, 0xB0, 0x0D])) =
          (\<lparr>PointerField = uint (0 :: u8),
            Sections = [patParsed] @ [\<lparr>CRC32 = 0,
             Header = Some (emptyHeader\<lparr>TableID := uint (it_bs ?i ! nat (it_offset ?i)),
               TableType := psiTableType (uint (it_bs ?i ! nat (it_offset ?i)))\<rparr>),
             Syntax = None\<rparr>]\<rparr>, Inr (?i\<lparr>it_offset := it_offset ?i + 1\<rparr>))"
    using parsePSIData_stop [OF stop_run_ptr stop_run_sections a b c] by blast
  then have "parsePSIData patParsers (NewBytesIterator (0 # patSection @ [0xFF, 0xB0, 0x0D])) =
          (\<lparr>PointerField = 0, Sections = [patParsed, nullSection]\<rparr>,
           Inr \<lparr>it_bs = 0 # patSection @ [0xFF, 0xB0, 0x0D], it_offset = 18\<rparr>)"
    by (simp only: d e f nullSection_def append_Cons append_Nil) simp
  then show ?thesis using a c stop_run_ptr stop_run_sections by simp
qed

text \<open>
  The claim as stated, that the sections parsed so far are returned, fails: on the
  payload \<open>00 FF 00 B0\<close> no section has been parsed when the table identifier \<open>0xFF\<close> is
  read, and \<open>parsePSIData\<close> returns one section, the header-only section of that
  identifier, with the cursor after the identifier.
\<close>

theorem parsePSIData_stop_adds_section:
  "parsePSIData patParsers (NewBytesIterator [0x00, 0xFF, 0x00, 0xB0])
     = (\<lparr>PointerField = 0, Sections = [nullSection]\<rparr>,
        Inr \<lparr>it_bs = [0x00, 0xFF, 0x00, 0xB0], it_offset = 2\<rparr>)
   \<and> Sections (fst (parsePSIData patParsers (NewBytesIterator [0x00, 0xFF, 0x00, 0xB0]))) \<noteq> []"
  by code_simp

subsection \<open>Top bits of words\<close>

lemma nat_top_bit: "x < 2 * 2 ^ n \<Longrightarrow> bit (x::nat) n \<longleftrightarrow> 2 ^ n \<le> x"
proof -
  assume a: "x < 2 * 2 ^ n"
  have "x div 2 ^ n < 2" using a by (simp add: less_mult_imp_div_less mult.commute)
  then have "x div 2 ^ n = 0 \<or> x div 2 ^ n = 1" by linarith
  moreover have "x div 2 ^ n = 0 \<longleftrightarrow> x < 2 ^ n" by (simp add: div_eq_0_iff)
  ultimately show ?thesis by (auto simp: bit_iff_odd)
qed

lemma top_bit32: "(reg :: u32) \<ge> 0x80000000 \<longleftrightarrow> bit reg 31"
proof -
  have "unat reg < 2 * 2 ^ 31" using unsigned_less [of reg, where 'a = nat] by simp
  then have "bit (unat reg) 31 \<longleftrightarrow> 2 ^ 31 \<le> unat reg" by (rule nat_top_bit)
  then show ?thesis by (simp add: word_le_nat_alt bit_unsigned_iff)
qed

lemma top_bit8: "(b :: u8) \<ge> 0x80 \<longleftrightarrow> bit b 7"
proof -
  have "unat b < 2 * 2 ^ 7" using unsigned_less [of b, where 'a = nat] by simp
  then have "bit (unat b) 7 \<longleftrightarrow> 2 ^ 7 \<le> unat b" by (rule nat_top_bit)
  then show ?thesis by (simp add: word_le_nat_alt bit_unsigned_iff)
qed

lemma bit_shl1_u8: "0 < m \<Longrightarrow> m < 8 \<Longrightarrow> bit (push_bit 1 (b::u8)) m = bit b (m - 1)"
  unfolding bit_push_bit_iff by auto

subsection \<open>The CRC32 loops against the reference algorithm\<close>

lemma crc32Bits_step:
  "crc32Bits (Suc n) reg b = crc32Bits n (crcStep reg (bit b 7)) (push_bit 1 b)"
  by (simp add: crcStep_def top_bit32 top_bit8)

text \<open>
  After \<open>k\<close> rounds the byte has been shifted left \<open>k\<close> times, so the bit compared in
  round \<open>k\<close> is bit \<open>7 - k\<close> of the byte as it was read.
\<close>

lemma crc32Bits_fold:
  "n \<le> 8 \<Longrightarrow> crc32Bits n reg b = foldl crcStep reg (map (\<lambda>k. bit b (7 - k)) [0..<n])"
proof (induction n arbitrary: reg b)
  case 0
  show ?case by simp
next
  case (Suc n)
  have shift: "map (\<lambda>k. bit (push_bit 1 b) (7 - k)) [0..<n] = map (\<lambda>k. bit b (7 - Suc k)) [0..<n]"
  proof (intro map_cong refl)
    fix k assume "k \<in> set [0..<n]"
    then have k: "0 < 7 - k" "7 - k < 8" "7 - k - 1 = 7 - Suc k" using Suc.prems by auto
    show "bit (push_bit 1 b) (7 - k) = bit b (7 - Suc k)"
      using bit_shl1_u8 [OF k(1) k(2), of b] by (simp only: k(3))
  qed
  have "[0..<Suc n] = 0 # map Suc [0..<n]"
    by (simp add: upt_conv_Cons map_Suc_upt del: upt_Suc)
  then have "map (\<lambda>k. bit b (7 - k)) [0..<Suc n] = bit b 7 # map (\<lambda>k. bit b (7 - Suc k)) [0..<n]"
    by (simp add: comp_def del: upt_Suc)
  then show ?case
    using Suc.IH [of "crcStep reg (bit b 7)" "push_bit 1 b"] Suc.prems
    by (simp only: crc32Bits_step shift foldl_Cons)
qed

lemma crc32Bytes_fold: "crc32Bytes reg bs = foldl crcStep reg (concat (map msbFirst bs))"
  by (induction bs arbitrary: reg)
     (simp_all add: crc32Bits_fold msbFirst_def del: crc32Bits.simps upt_Suc)

text \<open>
  The check value of CRC-32/MPEG-2: the nine ASCII digits \<open>123456789\<close> give \<open>0x0376E6E7\<close>.
\<close>

lemma computeCRC32_check_value:
  "computeCRC32 [0x31, 0x32, 0x33, 0x34, 0x35, 0x36, 0x37, 0x38, 0x39] = Inr 0x0376E6E7"
  by code_simp

text \<open>
  C1. \<open>computeCRC32\<close> never fails and returns, for every byte sequence, the register of the
  MPEG-2 reference algorithm: start at \<open>0xFFFFFFFF\<close>, take the bits of every byte most
  significant first, shift the register left for each bit and XOR \<open>0x04C11DB7\<close> exactly
  when the top bit of the register differs from the message bit; nothing is reflected and
  nothing is XOR-ed at the end.
\<close>

theorem computeCRC32_reference: "computeCRC32 bs = Inr (mpeg2CRC32 bs)"
  by (simp add: computeCRC32_def mpeg2CRC32_def crc32Bytes_fold)

subsection \<open>Classification of table identifiers\<close>

text \<open>
  C4. \<open>psiTableType\<close> is a function of the table identifier that agrees with the normative
  map on every integer, hence on every byte 0 to 255: each identifier has the one type the
  table gives it, and every identifier the table does not list is Unknown.
\<close>

theorem psiTableType_normative:
  "psiTableType t =
    (if t = 0x00 then PSITableTypePAT
     else if t = 0x02 then PSITableTypePMT
     else if 0x40 \<le> t \<and> t \<le> 0x41 then PSITableTypeNIT
     else if t = 0x42 \<or> t = 0x46 then PSITableTypeSDT
     else if t = 0x4A then PSITableTypeBAT
     else if 0x4E \<le> t \<and> t \<le> 0x6F then PSITableTypeEIT
     else if t = 0x70 then PSITableTypeTDT
     else if t = 0x71 then PSITableTypeRST
     else if t = 0x72 then PSITableTypeST
     else if t = 0x73 then PSITableTypeTOT
     else if t = 0x7E then PSITableTypeDIT
     else if t = 0x7F then PSITableTypeSIT
     else if t = 0xFF then PSITableTypeNull
     else PSITableTypeUnknown)"
  unfolding psiTableType_def by auto

end
